theory Spec2Isabelle
  imports Main "HOL-Library.Word"
begin

unbundle bit_operations_syntax

section \<open>Python strings\<close>

text \<open>
  A Python \<open>str\<close> is modelled as a \<open>string\<close>, every \<open>char\<close> standing for the code point
  of the same number (0 to 255).  Text with code points above 255 is outside the model.
\<close>

definition is_space :: "char \<Rightarrow> bool" where
  \<comment> \<open>\<open>str.isspace\<close> on one character: the white space of \<open>str.strip()\<close> and of
      \<open>\s\<close>, below code point 256\<close>
  "is_space c = (let n = of_char c :: nat in
     (9 \<le> n \<and> n \<le> 13) \<or> (28 \<le> n \<and> n \<le> 32) \<or> n = 133 \<or> n = 160)"

definition lstrip_ws :: "string \<Rightarrow> string" where
  "lstrip_ws s = dropWhile is_space s"

definition rstrip_ws :: "string \<Rightarrow> string" where
  "rstrip_ws s = rev (dropWhile is_space (rev s))"

definition strip :: "string \<Rightarrow> string" where
  \<comment> \<open>\<open>s.strip()\<close>\<close>
  "strip s = rstrip_ws (lstrip_ws s)"

definition lstrip_chars :: "string \<Rightarrow> string \<Rightarrow> string" where
  \<comment> \<open>\<open>s.lstrip(chars)\<close>\<close>
  "lstrip_chars chars s = dropWhile (\<lambda>c. c \<in> set chars) s"

function str_replace :: "string \<Rightarrow> string \<Rightarrow> string \<Rightarrow> string" where
  \<comment> \<open>\<open>s.replace(old, new)\<close> for a non-empty \<open>old\<close>: the occurrences are taken from the
      left and do not overlap\<close>
  "str_replace old new [] = []"
| "str_replace old new (c # cs) =
     (if old \<noteq> [] \<and> take (length old) (c # cs) = old
      then new @ str_replace old new (drop (length old) (c # cs))
      else c # str_replace old new cs)"
  by pat_completeness auto
termination
proof (relation "measure (\<lambda>(old, new, s). length s)")
  fix old new :: string and c :: char and cs :: string
  assume "old \<noteq> [] \<and> take (length old) (c # cs) = old"
  then have "0 < length old" by simp
  then show "((old, new, drop (length old) (c # cs)), (old, new, c # cs))
               \<in> measure (\<lambda>(old, new, s). length s)"
    by simp
qed simp_all

definition digit_char :: "nat \<Rightarrow> char" where
  "digit_char d = char_of (48 + d)"

fun str_nat :: "nat \<Rightarrow> string" where
  \<comment> \<open>\<open>str(i)\<close> of a non-negative integer\<close>
  "str_nat n = (if n < 10 then [digit_char n] else str_nat (n div 10) @ [digit_char (n mod 10)])"

declare str_nat.simps [simp del]

fun join :: "string \<Rightarrow> string list \<Rightarrow> string" where
  \<comment> \<open>\<open>sep.join(xs)\<close>\<close>
  "join sep [] = []"
| "join sep [x] = x"
| "join sep (x # y # ys) = x @ sep @ join sep (y # ys)"

section \<open>\<open>int(s, 16)\<close>\<close>

definition hex_digit_value :: "char \<Rightarrow> nat option" where
  "hex_digit_value c = (let n = of_char c :: nat in
     if 48 \<le> n \<and> n \<le> 57 then Some (n - 48)
     else if 97 \<le> n \<and> n \<le> 102 then Some (n - 87)
     else if 65 \<le> n \<and> n \<le> 70 then Some (n - 55)
     else None)"

fun hex_digits :: "nat \<Rightarrow> bool \<Rightarrow> string \<Rightarrow> nat option" where
  \<comment> \<open>the digits of an integer literal after its sign and prefix, with the value read so
      far and whether the last character was an underscore: single underscores may
      separate digits, and the literal may not end with one\<close>
  "hex_digits acc us [] = (if us then None else Some acc)"
| "hex_digits acc us (c # cs) =
     (if c = CHR ''_'' then (if us then None else hex_digits acc True cs)
      else case hex_digit_value c of
             None \<Rightarrow> None
           | Some d \<Rightarrow> hex_digits (16 * acc + d) False cs)"

definition is_int_space :: "char \<Rightarrow> bool" where
  \<comment> \<open>the white space that \<open>int()\<close> skips around a literal: not the separators 28 to 31\<close>
  "is_int_space c = (let n = of_char c :: nat in
     (9 \<le> n \<and> n \<le> 13) \<or> n = 32 \<or> n = 133 \<or> n = 160)"

definition py_int16 :: "string \<Rightarrow> int option" where
  \<comment> \<open>Python's \<open>int(s, 16)\<close> on a \<open>str\<close>; \<open>None\<close> is ValueError.  White space around the
      literal is skipped; a sign and a prefix \<open>0x\<close> or \<open>0X\<close> (and one underscore after the
      prefix) are optional.\<close>
  "py_int16 s =
     (let s1 = rev (dropWhile is_int_space (rev (dropWhile is_int_space s)));
          neg = (s1 \<noteq> [] \<and> hd s1 = CHR ''-'');
          s2 = (if s1 \<noteq> [] \<and> (hd s1 = CHR ''+'' \<or> hd s1 = CHR ''-'') then tl s1 else s1);
          pre = (take 2 s2 = ''0x'' \<or> take 2 s2 = ''0X'');
          s3 = (if pre then drop 2 s2 else s2);
          s4 = (if pre \<and> s3 \<noteq> [] \<and> hd s3 = CHR ''_'' then tl s3 else s3)
      in if s4 = [] \<or> hd s4 = CHR ''_'' then None
         else case hex_digits 0 False s4 of
                None \<Rightarrow> None
              | Some v \<Rightarrow> Some (if neg then - int v else int v))"

section \<open>The bitfield decoder\<close>

record bit_row =
  Bit :: nat
  Status :: string
  Description :: string

type_synonym str_dict = "(string \<times> string) list"

fun dict_set :: "'k \<Rightarrow> 'v \<Rightarrow> ('k \<times> 'v) list \<Rightarrow> ('k \<times> 'v) list" where
  \<comment> \<open>\<open>d[k] = v\<close> on a dict, which keeps the order in which its keys were first stored\<close>
  "dict_set k v [] = [(k, v)]"
| "dict_set k v ((k', v') # d) =
     (if k = k' then (k, v) # d else (k', v') # dict_set k v d)"

definition dict_get :: "('k \<times> 'v) list \<Rightarrow> 'k \<Rightarrow> 'v option" where
  \<comment> \<open>\<open>d.get(k)\<close>\<close>
  "dict_get d k = map_of d k"

definition specific_bits_map :: "(nat \<times> string) list" where
  "specific_bits_map =
     [(3, ''Enables HR''),
      (24, ''Double button to turn off''),
      (28, ''Enables ECH heartrate pickup''),
      (30, ''Enables BLE HR monitoring'')]"

definition bit_step :: "int \<Rightarrow> nat \<Rightarrow> str_dict \<times> bit_row list \<Rightarrow> str_dict \<times> bit_row list" where
  \<comment> \<open>the body of \<open>for i in range(64)\<close> in \<open>get_bit_status\<close>\<close>
  "bit_step flags_int i st =
     (let (specific_bits_status, all_bits_table) = st;
          is_set = (drop_bit i flags_int) AND 1;
          status_str = (if is_set \<noteq> 0 then ''ON'' else ''OFF'');
          description = (case map_of specific_bits_map i of
                           Some d \<Rightarrow> d
                         | None \<Rightarrow> ''Bit '' @ str_nat i);
          all_bits_table' = all_bits_table @
             [\<lparr>Bit = i, Status = status_str, Description = description\<rparr>];
          specific_bits_status' =
             (if i \<in> fst ` set specific_bits_map
              then dict_set (str_nat i) status_str specific_bits_status
              else specific_bits_status)
      in (specific_bits_status', all_bits_table'))"

definition bits_of_int :: "int \<Rightarrow> str_dict \<times> bit_row list" where
  \<comment> \<open>\<open>get_bit_status\<close> after the conversion of the string\<close>
  "bits_of_int flags_int = fold (bit_step flags_int) [0..<64] ([], [])"

definition get_bit_status :: "string \<Rightarrow> str_dict \<times> bit_row list" where
  "get_bit_status flags_hex =
     (case py_int16 (str_replace ''0x'' '''' flags_hex) of
        None \<Rightarrow> ([], [])
      | Some flags_int \<Rightarrow> bits_of_int flags_int)"

definition get_current_hr_mode :: "str_dict \<Rightarrow> string" where
  "get_current_hr_mode bit_status =
     (let bit_3 = dict_get bit_status ''3'';
          bit_28 = dict_get bit_status ''28'';
          bit_30 = dict_get bit_status ''30''
      in if bit_3 = Some ''ON'' \<and> bit_28 = Some ''OFF'' \<and> bit_30 = Some ''OFF''
         then ''Polar Strap''
         else if bit_3 = Some ''ON'' \<and> bit_28 = Some ''ON'' \<and> bit_30 = Some ''OFF''
         then ''Integrated HR''
         else if bit_3 = Some ''ON'' \<and> bit_28 = Some ''OFF'' \<and> bit_30 = Some ''ON''
         then ''Bluetooth HR''
         else ''Unknown/Custom'')"

text \<open>
  The status and the label of bit \<open>i\<close> and the value of a string of hexadecimal digits,
  written from the specification's words, for comparison with the decoder.
\<close>

definition bit_status_str :: "int \<Rightarrow> nat \<Rightarrow> string" where
  "bit_status_str F i = (if (drop_bit i F) AND 1 = 1 then ''ON'' else ''OFF'')"

definition bit_label :: "nat \<Rightarrow> string" where
  "bit_label i = (if i = 3 then ''Enables HR''
     else if i = 24 then ''Double button to turn off''
     else if i = 28 then ''Enables ECH heartrate pickup''
     else if i = 30 then ''Enables BLE HR monitoring''
     else ''Bit '' @ str_nat i)"

definition is_hex_digit :: "char \<Rightarrow> bool" where
  "is_hex_digit c = (c \<in> set ''0123456789abcdefABCDEF'')"

definition hex_value :: "string \<Rightarrow> nat" where
  "hex_value ds =
     foldl (\<lambda>a c. 16 * a + (case hex_digit_value c of Some d \<Rightarrow> d | None \<Rightarrow> 0)) 0 ds"

section \<open>More string operations\<close>

definition LF :: char where "LF = CHR 0x0A"
definition CR :: char where "CR = CHR 0x0D"

definition is_linebreak :: "char \<Rightarrow> bool" where
  \<comment> \<open>the line boundaries of \<open>str.splitlines()\<close> below code point 256\<close>
  "is_linebreak c = (let n = of_char c :: nat in
     (10 \<le> n \<and> n \<le> 13) \<or> (28 \<le> n \<and> n \<le> 30) \<or> n = 133)"

fun splitlines_from :: "string \<Rightarrow> string \<Rightarrow> string list" where
  \<comment> \<open>\<open>splitlines_from cur s\<close>: the lines of \<open>s\<close>, the first one prefixed with \<open>cur\<close>, the
      part of the current line already read\<close>
  "splitlines_from cur [] = (if cur = [] then [] else [cur])"
| "splitlines_from cur [c] = (if is_linebreak c then [cur] else [cur @ [c]])"
| "splitlines_from cur (c # d # cs) =
     (if c = CR \<and> d = LF then cur # splitlines_from [] cs
      else if is_linebreak c then cur # splitlines_from [] (d # cs)
      else splitlines_from (cur @ [c]) (d # cs))"

definition splitlines :: "string \<Rightarrow> string list" where
  \<comment> \<open>\<open>s.splitlines()\<close>: the line breaks are dropped, \<open>\r\n\<close> is one break, and a break
      at the end of the text does not start another line\<close>
  "splitlines s = splitlines_from [] s"

fun contains :: "string \<Rightarrow> string \<Rightarrow> bool" where
  \<comment> \<open>\<open>sub in s\<close>\<close>
  "contains sub [] = (sub = [])"
| "contains sub (c # cs) = (take (length sub) (c # cs) = sub \<or> contains sub cs)"

definition count_char :: "char \<Rightarrow> string \<Rightarrow> nat" where
  \<comment> \<open>\<open>s.count(c)\<close> for a one-character \<open>c\<close>\<close>
  "count_char c s = length (filter (\<lambda>x. x = c) s)"

section \<open>Regular expressions\<close>

text \<open>
  The patterns of the program are sequences of items: a character test, alone or under
  \<open>+\<close>, \<open>*\<close> or \<open>*?\<close>; the start and the end of a named group; \<open>^\<close>; \<open>$\<close>.  The matcher
  is the backtracking one of Python's \<open>re\<close>: the items are tried from left to right, a
  greedy repetition tries the longest run first and a lazy one the shortest, and the
  first alternative under which the rest of the pattern matches is taken.
\<close>

datatype cset = CChar char | CRange char char | CDigit | CWord | CSpace

datatype atom = Lit char | AnyChar | Class "cset list"

datatype quant = Once | Plus | Star | LazyStar

datatype item = Rep atom quant | Open string | Close string | Bol | Eol

definition is_digit :: "char \<Rightarrow> bool" where
  \<comment> \<open>\<open>\d\<close> below code point 256\<close>
  "is_digit c = (let n = of_char c :: nat in 48 \<le> n \<and> n \<le> 57)"

definition is_word :: "char \<Rightarrow> bool" where
  \<comment> \<open>\<open>\w\<close> below code point 256: the letters and digits of ASCII and of Latin-1, and the
      underscore\<close>
  "is_word c = (let n = of_char c :: nat in
     (48 \<le> n \<and> n \<le> 57) \<or> (65 \<le> n \<and> n \<le> 90) \<or> n = 95 \<or> (97 \<le> n \<and> n \<le> 122)
     \<or> n = 170 \<or> n = 178 \<or> n = 179 \<or> n = 181 \<or> n = 185 \<or> n = 186
     \<or> (188 \<le> n \<and> n \<le> 190) \<or> (192 \<le> n \<and> n \<le> 214) \<or> (216 \<le> n \<and> n \<le> 246)
     \<or> 248 \<le> n)"

definition ascii_lower :: "char \<Rightarrow> char" where
  "ascii_lower c =
     (case map_of (zip ''ABCDEFGHIJKLMNOPQRSTUVWXYZ'' ''abcdefghijklmnopqrstuvwxyz'') c of
        Some l \<Rightarrow> l
      | None \<Rightarrow> c)"

definition ascii_upper :: "char \<Rightarrow> char" where
  "ascii_upper c =
     (case map_of (zip ''abcdefghijklmnopqrstuvwxyz'' ''ABCDEFGHIJKLMNOPQRSTUVWXYZ'') c of
        Some u \<Rightarrow> u
      | None \<Rightarrow> c)"

fun cset_mem :: "cset \<Rightarrow> char \<Rightarrow> bool" where
  "cset_mem (CChar x) c = (c = x)"
| "cset_mem (CRange lo hi) c = ((of_char lo :: nat) \<le> of_char c \<and> (of_char c :: nat) \<le> of_char hi)"
| "cset_mem CDigit c = is_digit c"
| "cset_mem CWord c = is_word c"
| "cset_mem CSpace c = is_space c"

fun atom_match :: "bool \<Rightarrow> atom \<Rightarrow> char \<Rightarrow> bool" where
  \<comment> \<open>the first argument is the flag IGNORECASE; the literals of the patterns are ASCII\<close>
  "atom_match ic (Lit x) c = (c = x \<or> (ic \<and> ascii_lower c = ascii_lower x))"
| "atom_match ic AnyChar c = (c \<noteq> LF)"
| "atom_match ic (Class cs) c =
     ((\<exists>s\<in>set cs. cset_mem s c)
      \<or> (ic \<and> (\<exists>s\<in>set cs. cset_mem s (ascii_lower c) \<or> cset_mem s (ascii_upper c))))"

fun counts :: "quant \<Rightarrow> nat \<Rightarrow> nat list" where
  \<comment> \<open>the numbers of characters a repetition may take from a run of \<open>n\<close> characters that
      pass its test, in the order in which the matcher tries them\<close>
  "counts Once n = (if 1 \<le> n then [1] else [])"
| "counts Plus n = rev [1..<Suc n]"
| "counts Star n = rev [0..<Suc n]"
| "counts LazyStar n = [0..<Suc n]"

type_synonym groups = "(string \<times> string) list"

datatype mstate = MState
  (prev: "char option")  \<comment> \<open>the character before the current position\<close>
  (rest: string)  \<comment> \<open>the text from the current position on\<close>
  (opened: "(string \<times> string) list")  \<comment> \<open>for each group begun, the text from its start on\<close>
  (caught: groups)  \<comment> \<open>the groups closed so far, in the order of the pattern\<close>

fun advance :: "nat \<Rightarrow> mstate \<Rightarrow> mstate" where
  "advance k (MState p s os g) =
     MState (if k = 0 then p else Some (s ! (k - 1))) (drop k s) os g"

fun at_bol :: "bool \<Rightarrow> mstate \<Rightarrow> bool" where
  \<comment> \<open>\<open>^\<close>; the first argument is the flag MULTILINE\<close>
  "at_bol ml (MState p s os g) = (p = None \<or> (ml \<and> p = Some LF))"

fun at_eol :: "bool \<Rightarrow> mstate \<Rightarrow> bool" where
  \<comment> \<open>\<open>$\<close>: the end of the text, or before a newline that ends the text; under MULTILINE,
      before any newline\<close>
  "at_eol ml (MState p s os g) = (s = [] \<or> (if ml then hd s = LF else s = [LF]))"

fun open_group :: "string \<Rightarrow> mstate \<Rightarrow> mstate" where
  "open_group name (MState p s os g) = MState p s ((name, s) # os) g"

fun close_group :: "string \<Rightarrow> mstate \<Rightarrow> mstate" where
  "close_group name (MState p s os g) =
     (case map_of os name of
        None \<Rightarrow> MState p s os g
      | Some start \<Rightarrow> MState p s os (g @ [(name, take (length start - length s) start)]))"

fun match_here :: "bool \<Rightarrow> bool \<Rightarrow> item list \<Rightarrow> mstate \<Rightarrow> mstate option"
  and try_counts :: "bool \<Rightarrow> bool \<Rightarrow> item list \<Rightarrow> mstate \<Rightarrow> nat list \<Rightarrow> mstate option" where
  \<comment> \<open>\<open>match_here\<close>: the pattern matches at the current position; \<open>try_counts\<close>: the rest
      of the pattern matches after one of the given numbers of characters, tried in order\<close>
  "match_here ic ml [] st = Some st"
| "match_here ic ml (Bol # its) st = (if at_bol ml st then match_here ic ml its st else None)"
| "match_here ic ml (Eol # its) st = (if at_eol ml st then match_here ic ml its st else None)"
| "match_here ic ml (Open name # its) st = match_here ic ml its (open_group name st)"
| "match_here ic ml (Close name # its) st = match_here ic ml its (close_group name st)"
| "match_here ic ml (Rep a q # its) st =
     try_counts ic ml its st (counts q (length (takeWhile (atom_match ic a) (rest st))))"
| "try_counts ic ml its st [] = None"
| "try_counts ic ml its st (k # ks) =
     (case match_here ic ml its (advance k st) of
        Some r \<Rightarrow> Some r
      | None \<Rightarrow> try_counts ic ml its st ks)"

fun search_from :: "bool \<Rightarrow> bool \<Rightarrow> item list \<Rightarrow> char option \<Rightarrow> string \<Rightarrow> mstate option" where
  \<comment> \<open>the leftmost match that starts in \<open>s\<close>, the text after a character \<open>p\<close>\<close>
  "search_from ic ml re p [] = match_here ic ml re (MState p [] [] [])"
| "search_from ic ml re p (c # cs) =
     (case match_here ic ml re (MState p (c # cs) [] []) of
        Some st \<Rightarrow> Some st
      | None \<Rightarrow> search_from ic ml re (Some c) cs)"

definition re_search :: "bool \<Rightarrow> bool \<Rightarrow> item list \<Rightarrow> string \<Rightarrow> groups option" where
  \<comment> \<open>\<open>pattern.search(s)\<close>, as the \<open>groupdict()\<close> of the match\<close>
  "re_search ic ml re s = map_option caught (search_from ic ml re None s)"

definition re_match :: "bool \<Rightarrow> bool \<Rightarrow> item list \<Rightarrow> string \<Rightarrow> groups option" where
  \<comment> \<open>\<open>pattern.match(s)\<close>: a match that starts at the start of \<open>s\<close>\<close>
  "re_match ic ml re s = map_option caught (match_here ic ml re (MState None s [] []))"

function finditer_from :: "bool \<Rightarrow> bool \<Rightarrow> item list \<Rightarrow> char option \<Rightarrow> string \<Rightarrow> groups list" where
  \<comment> \<open>\<open>pattern.finditer(s)\<close> for a pattern that matches no empty text: each search starts
      where the match before ended\<close>
  "finditer_from ic ml re p s =
     (case search_from ic ml re p s of
        None \<Rightarrow> []
      | Some st \<Rightarrow>
          if length (rest st) < length s
          then caught st # finditer_from ic ml re (prev st) (rest st)
          else [caught st])"
  by pat_completeness auto
termination
  by (relation "measure (\<lambda>(ic, ml, re, p, s). length s)") auto

definition re_finditer :: "bool \<Rightarrow> bool \<Rightarrow> item list \<Rightarrow> string \<Rightarrow> groups list" where
  "re_finditer ic ml re s = finditer_from ic ml re None s"

definition group :: "groups \<Rightarrow> string \<Rightarrow> string" where
  \<comment> \<open>\<open>m.group(name)\<close>; every group of the patterns below takes part in every match\<close>
  "group g name = (case map_of g name of Some v \<Rightarrow> v | None \<Rightarrow> [])"

definition lits :: "string \<Rightarrow> item list" where
  "lits s = map (\<lambda>c. Rep (Lit c) Once) s"

definition named :: "string \<Rightarrow> item list \<Rightarrow> item list" where
  \<comment> \<open>\<open>(?P<name>...)\<close>\<close>
  "named name body = Open name # body @ [Close name]"

definition hex_class :: atom where
  \<comment> \<open>\<open>[a-fA-F0-9]\<close>\<close>
  "hex_class = Class [CRange (CHR ''a'') (CHR ''f''), CRange (CHR ''A'') (CHR ''F''),
                      CRange (CHR ''0'') (CHR ''9'')]"

definition SUMMARY_PATTERN :: "item list" where
  "SUMMARY_PATTERN =
     lits ''ID:'' @ named ''id'' [Rep (Class [CDigit]) Plus] @ lits '',''
     @ lits ''Family='' @ named ''type'' [Rep AnyChar LazyStar] @ lits ''/''
     @ [Rep AnyChar LazyStar] @ lits '','' @ [Rep AnyChar LazyStar]
     @ lits ''Ver ''
     @ named ''firmware''
         [Rep (Class [CWord, CChar (CHR ''.''), CChar (CHR ''+''), CRange (CHR ''a'') (CHR ''f''),
                      CRange (CHR ''A'') (CHR ''F''), CRange (CHR ''0'') (CHR ''9'')]) Plus]
     @ lits '','' @ [Rep AnyChar LazyStar]
     @ lits ''Flags='' @ named ''flags'' (lits ''0x'' @ [Rep hex_class Plus])"

definition GSP_PATTERN :: "item list" where
  "GSP_PATTERN =
     lits ''ID:'' @ named ''id'' [Rep (Class [CDigit]) Plus] @ lits '','' @ [Rep AnyChar LazyStar]
     @ lits ''txCode='' @ named ''tx'' [Rep (Class [CDigit]) Plus]
     @ lits '',rxCode='' @ named ''rx'' [Rep (Class [CDigit]) Plus]"

definition SI_START_PATTERN :: "item list" where
  "SI_START_PATTERN =
     lits ''Id:'' @ named ''id'' [Rep (Class [CDigit]) Plus]
     @ lits '' Total Sessions:'' @ named ''total'' [Rep (Class [CDigit]) Plus]"

definition SI_SESSION_PATTERN :: "item list" where
  "SI_SESSION_PATTERN =
     lits ''Session '' @ named ''num'' [Rep (Class [CDigit]) Plus]
     @ lits '': length='' @ named ''length'' [Rep (Class [CDigit]) Plus]
     @ lits '',Duration='' @ named ''duration'' [Rep (Class [CDigit]) Plus]
     @ lits '' secs,createTime '' @ named ''time'' [Rep AnyChar LazyStar]
     @ lits '' UTC''"

definition ORIENTATION_PATTERN :: "item list" where
  "ORIENTATION_PATTERN =
     [Bol,
      Rep (Class [CChar (CHR ''+''), CChar (CHR ''r''), CChar (CHR ''u''), CChar (CHR ''.'')]) Plus,
      Eol]"

definition BATTERY_PATTERN :: "item list" where
  "BATTERY_PATTERN =
     [Bol, Rep (Class [CSpace]) Star, Rep hex_class Plus, Rep (Class [CSpace]) Plus]
     @ named ''time_s'' [Rep (Class [CDigit, CChar (CHR ''.'')]) Plus]
     @ [Rep (Class [CSpace]) Plus] @ lits ''DATA:'' @ [Rep (Class [CSpace]) Plus]
     @ lits ''Battery='' @ named ''voltage'' [Rep (Class [CDigit, CChar (CHR ''.'')]) Plus]
     @ lits ''V,'' @ [Rep (Class [CSpace]) Plus]
     @ named ''percent'' [Rep (Class [CDigit]) Plus] @ lits ''%''"

text \<open>
  All the patterns but \<open>ORIENTATION_PATTERN\<close> are compiled with IGNORECASE, and
  \<open>BATTERY_PATTERN\<close> with MULTILINE too.
\<close>

definition summary_search :: "string \<Rightarrow> groups option" where
  "summary_search line = re_search True False SUMMARY_PATTERN line"

definition gsp_search :: "string \<Rightarrow> groups option" where
  "gsp_search line = re_search True False GSP_PATTERN line"

definition si_start_search :: "string \<Rightarrow> groups option" where
  "si_start_search line = re_search True False SI_START_PATTERN line"

definition si_session_search :: "string \<Rightarrow> groups option" where
  "si_session_search line = re_search True False SI_SESSION_PATTERN line"

definition orientation_match :: "string \<Rightarrow> groups option" where
  "orientation_match line = re_match False False ORIENTATION_PATTERN line"

definition battery_finditer :: "string \<Rightarrow> groups list" where
  "battery_finditer raw_output = re_finditer True True BATTERY_PATTERN raw_output"

section \<open>The external tool\<close>

text \<open>
  \<open>run_command\<close> checks that the executable exists, starts it, sends it a newline and
  waits at most ten seconds for it to end; it returns \<open>(success, stdout, stderr)\<close>.  The
  file system and the process are outside the program.  They are a parameter that gives,
  for a call and the calls made before it, whether \<open>os.path.exists(exe_path)\<close> holds and
  how \<open>subprocess.Popen\<close> followed by \<open>communicate\<close> ends: the process exits with a return
  code and the texts of its two streams, or \<open>TimeoutExpired\<close>, \<open>FileNotFoundError\<close> or
  another exception, whose text is \<open>str(e)\<close>, is raised.  \<open>run_command\<close> records each
  call, so that the commands a function attempts can be read off afterwards.  The
  argument \<open>cwd\<close> is left at \<open>None\<close> by every caller.
\<close>

datatype proc_outcome =
    Exited int string string
  | TimeoutExpired
  | FileNotFoundError
  | OtherException string

type_synonym cmd_result = "bool \<times> string \<times> string"

type_synonym invocation = "string \<times> string list"

type_synonym tool = "invocation list \<Rightarrow> invocation \<Rightarrow> bool \<times> proc_outcome"

definition quote :: char where "quote = CHR 0x27"

definition run_command ::
  "tool \<Rightarrow> invocation list \<Rightarrow> string \<Rightarrow> string list \<Rightarrow> cmd_result \<times> invocation list" where
  "run_command t hist exe_path args =
     (let (path_exists, outcome) = t hist (exe_path, args);
          hist' = hist @ [(exe_path, args)]
      in if \<not> path_exists
         then ((False, '''',
                ''Error: ConfigDevices.exe not found at '' @ [quote] @ exe_path @ [quote]), hist')
         else case outcome of
                Exited returncode stdout_data stderr_data \<Rightarrow>
                  if returncode \<noteq> 0 \<and> stdout_data = []
                  then ((False, '''',
                         if stderr_data \<noteq> [] then stderr_data
                         else ''Command failed with no output.''), hist')
                  else ((True, stdout_data, stderr_data), hist')
              | TimeoutExpired \<Rightarrow>
                  ((False, '''',
                    ''Error: The command timed out. The device may be unresponsive.''), hist')
              | FileNotFoundError \<Rightarrow>
                  ((False, '''',
                    ''Error: Executable not found at '' @ [quote] @ exe_path @ [quote]
                    @ ''. Please check the path.''), hist')
              | OtherException e \<Rightarrow>
                  ((False, '''', ''An unexpected error occurred: '' @ e), hist'))"

section \<open>Scanning the devices\<close>

record device =
  dev_id :: string
  dev_type :: string
  dev_firmware :: string
  dev_flags :: string
  bit_status :: str_dict
  all_bits :: "bit_row list"
  hr_mode :: string

definition device_of :: "groups \<Rightarrow> device" where
  \<comment> \<open>the \<open>data\<close> dict that \<open>get_connected_devices\<close> builds from a match\<close>
  "device_of m =
     (let (bs, ab) = get_bit_status (group m ''flags'')
      in \<lparr>dev_id = lstrip_chars ''0'' (group m ''id''),
          dev_type = group m ''type'',
          dev_firmware = group m ''firmware'',
          dev_flags = group m ''flags'',
          bit_status = bs,
          all_bits = ab,
          hr_mode = get_current_hr_mode bs\<rparr>)"

definition device_step :: "string \<Rightarrow> device list \<times> string list \<Rightarrow> device list \<times> string list" where
  \<comment> \<open>the body of the loop over the lines, on \<open>(devices, error_log)\<close>\<close>
  "device_step line st =
     (let (devices, error_log) = st
      in case summary_search line of
           Some m \<Rightarrow> (devices @ [device_of m], error_log)
         | None \<Rightarrow>
             if contains ''ID:'' line
             then (devices, error_log @ [''Failed to parse line: '' @ line])
             else (devices, error_log))"

definition get_connected_devices :: "cmd_result \<Rightarrow> device list \<times> string" where
  \<comment> \<open>the argument is the result of \<open>run_command(exe_path, [])\<close>\<close>
  "get_connected_devices res =
     (let (success, stdout, stderr) = res
      in if \<not> success
         then ([], if stderr \<noteq> [] then stderr else ''Failed to run ConfigDevices.exe'')
         else
           let (devices, error_log) = fold device_step (splitlines stdout) ([], [])
           in if devices = [] \<and> error_log = []
              then ([], ''No devices found. Check connection.'')
              else (devices, join [LF] error_log))"

section \<open>Setting the heart-rate mode\<close>

definition hr_commands :: "string \<Rightarrow> string \<Rightarrow> invocation list option" where
  \<comment> \<open>the list \<open>commands\<close> of \<open>set_hr_mode\<close>; \<open>None\<close> for a mode that is not one of the three\<close>
  "hr_commands exe_path mode =
     (if mode = ''Polar Strap''
      then Some [(exe_path, [''-ds'', ''3'']), (exe_path, [''-dc'', ''28'']),
                 (exe_path, [''-dc'', ''30''])]
      else if mode = ''Integrated HR''
      then Some [(exe_path, [''-ds'', ''3'']), (exe_path, [''-ds'', ''28'']),
                 (exe_path, [''-dc'', ''30''])]
      else if mode = ''Bluetooth HR''
      then Some [(exe_path, [''-ds'', ''3'']), (exe_path, [''-ds'', ''30'']),
                 (exe_path, [''-dc'', ''28''])]
      else None)"

fun run_commands ::
  "tool \<Rightarrow> invocation list \<Rightarrow> string list \<Rightarrow> invocation list \<Rightarrow> string list \<times> invocation list" where
  \<comment> \<open>the loop \<open>for exe, args in commands\<close>, on the output log and the invocations made\<close>
  "run_commands t hist output_log [] = (output_log, hist)"
| "run_commands t hist output_log ((exe, args) # commands) =
     (let ((success, stdout, stderr), hist') = run_command t hist exe args
      in if success
         then run_commands t hist'
                (output_log @ [''SUCCESS: '' @ join '' '' args @ [LF] @ stdout]) commands
         else run_commands t hist'
                (output_log @ [''ERROR: '' @ join '' '' args @ [LF] @ stderr]) commands)"

definition set_hr_mode :: "tool \<Rightarrow> invocation list \<Rightarrow> string \<Rightarrow> string \<Rightarrow> string \<times> invocation list" where
  "set_hr_mode t hist exe_path mode =
     (case hr_commands exe_path mode of
        None \<Rightarrow> (''Invalid mode selected.'', hist)
      | Some commands \<Rightarrow>
          let (output_log, hist') =
                run_commands t hist [''--- Setting HR Mode to: '' @ mode @ '' ---''] commands
          in (join [LF] (output_log @ [''--- HR Mode setting complete. ---'']), hist'))"

section \<open>The radio configuration\<close>

record radio_config =
  cfg_id :: string
  config_type :: string
  raw :: string

definition config_of :: "string \<Rightarrow> groups \<Rightarrow> radio_config" where
  \<comment> \<open>the body of the loop of \<open>get_6_5ghz_config\<close> for a line that matches\<close>
  "config_of line m =
     (let tx = group m ''tx'';
          rx = group m ''rx'';
          config_type =
            (if tx = ''9'' \<and> rx = ''9'' then ''Default (tx=9, rx=9)''
             else if tx = ''3'' \<and> rx = ''3'' then ''Alternative (tx=3, rx=3)''
             else ''Unknown (tx='' @ tx @ '', rx='' @ rx @ '')'')
      in \<lparr>cfg_id = lstrip_chars ''0'' (group m ''id''),
          config_type = config_type,
          raw = strip line\<rparr>)"

definition get_6_5ghz_config :: "cmd_result \<Rightarrow> radio_config list \<times> string" where
  \<comment> \<open>the argument is the result of \<open>run_command(exe_path, ["-gsp"])\<close>\<close>
  "get_6_5ghz_config res =
     (let (success, stdout, stderr) = res
      in if \<not> success
         then ([], if stderr \<noteq> [] then stderr else ''Failed to run -gsp command.'')
         else (List.map_filter (\<lambda>line. map_option (config_of line) (gsp_search line))
                 (splitlines stdout), ''''))"

section \<open>The session list\<close>

datatype py_error = KeyError

type_synonym session = "(string \<times> (string + bool)) list"

type_synonym sessions = "(string \<times> session list) list"

definition session_of :: "groups \<Rightarrow> session" where
  \<comment> \<open>\<open>data = session_match.groupdict(); data['Select'] = False\<close>\<close>
  "session_of m = dict_set ''Select'' (Inr False) (map (\<lambda>(k, v). (k, Inl v)) m)"

definition truthy :: "string option \<Rightarrow> bool" where
  \<comment> \<open>the truth value of \<open>current_device_id\<close>: false for \<open>None\<close> and for the empty string\<close>
  "truthy cur = (case cur of None \<Rightarrow> False | Some s \<Rightarrow> s \<noteq> [])"

definition dict_append :: "'k \<Rightarrow> 'v \<Rightarrow> ('k \<times> 'v list) list \<Rightarrow> py_error + ('k \<times> 'v list) list" where
  \<comment> \<open>\<open>d[k].append(v)\<close>, which raises KeyError when \<open>k\<close> is not a key\<close>
  "dict_append k v d =
     (case map_of d k of
        None \<Rightarrow> Inl KeyError
      | Some vs \<Rightarrow> Inr (dict_set k (vs @ [v]) d))"

definition session_step ::
  "string \<Rightarrow> sessions \<times> string option \<Rightarrow> py_error + (sessions \<times> string option)" where
  \<comment> \<open>the body of the loop over the lines, on \<open>(sessions_by_device, current_device_id)\<close>\<close>
  "session_step line st =
     (let (sessions_by_device, current_device_id) = st;
          start_match = si_start_search line;
          session_match = si_session_search line
      in case start_match of
           Some m \<Rightarrow>
             (let cur = lstrip_chars ''0'' (group m ''id'')
              in Inr (if cur \<notin> fst ` set sessions_by_device
                      then dict_set cur [] sessions_by_device
                      else sessions_by_device,
                      Some cur))
         | None \<Rightarrow>
             (case session_match of
                Some m \<Rightarrow>
                  if truthy current_device_id
                  then (case dict_append (the current_device_id) (session_of m)
                               sessions_by_device of
                          Inl e \<Rightarrow> Inl e
                        | Inr d \<Rightarrow> Inr (d, current_device_id))
                  else Inr st
              | None \<Rightarrow> Inr st))"

fun session_loop ::
  "string list \<Rightarrow> sessions \<times> string option \<Rightarrow> py_error + (sessions \<times> string option)" where
  "session_loop [] st = Inr st"
| "session_loop (line # lines) st =
     (case session_step line st of
        Inl e \<Rightarrow> Inl e
      | Inr st' \<Rightarrow> session_loop lines st')"

definition list_sessions :: "cmd_result \<Rightarrow> py_error + (sessions \<times> string)" where
  \<comment> \<open>the argument is the result of \<open>run_command(exe_path, ["-si"])\<close>\<close>
  "list_sessions res =
     (let (success, stdout, stderr) = res
      in if \<not> success
         then Inr ([], if stderr \<noteq> [] then stderr else ''Failed to run -si command.'')
         else case session_loop (splitlines stdout) ([], None) of
                Inl e \<Rightarrow> Inl e
              | Inr (sessions_by_device, current_device_id) \<Rightarrow> Inr (sessions_by_device, ''''))"

text \<open>
  The entry that the output log gets for a command, from what the file system and the
  process answer to it, and two tools for examples: one whose every process exits with
  code 1 and no output, and one whose first process exits with code 0, whose second
  exits with code 1 and no output and whose third exits with code 2 after it has written
  output.
\<close>

fun log_entry :: "invocation \<Rightarrow> bool \<times> proc_outcome \<Rightarrow> string" where
  "log_entry (exe, args) (False, outcome) =
     ''ERROR: '' @ join '' '' args @ [LF]
     @ ''Error: ConfigDevices.exe not found at '' @ [quote] @ exe @ [quote]"
| "log_entry (exe, args) (True, Exited returncode out err) =
     (if returncode \<noteq> 0 \<and> out = []
      then ''ERROR: '' @ join '' '' args @ [LF]
           @ (if err = [] then ''Command failed with no output.'' else err)
      else ''SUCCESS: '' @ join '' '' args @ [LF] @ out)"
| "log_entry (exe, args) (True, TimeoutExpired) =
     ''ERROR: '' @ join '' '' args @ [LF]
     @ ''Error: The command timed out. The device may be unresponsive.''"
| "log_entry (exe, args) (True, FileNotFoundError) =
     ''ERROR: '' @ join '' '' args @ [LF]
     @ ''Error: Executable not found at '' @ [quote] @ exe @ [quote]
     @ ''. Please check the path.''"
| "log_entry (exe, args) (True, OtherException e) =
     ''ERROR: '' @ join '' '' args @ [LF] @ ''An unexpected error occurred: '' @ e"

definition failing_tool :: tool where
  "failing_tool hist cmd = (True, Exited 1 [] ''fail'')"

definition flaky_tool :: tool where
  "flaky_tool hist cmd =
     (True, if length hist = 1 then Exited 1 [] ''boom''
            else if length hist = 2 then Exited 2 ''partly done'' ''warning''
            else Exited 0 ''ok'' [])"

text \<open>The note that the device scan records for a line, and two texts for examples.\<close>

definition failure_note :: "string \<Rightarrow> string" where
  "failure_note line = ''Failed to parse line: '' @ line"

definition scan_text :: string where
  "scan_text = ''ID:1 bad'' @ [LF] @ ''id:2 bad''"

definition scan_text_marker :: string where
  "scan_text_marker = ''ID:9 oops'' @ [LF] @ ''hello''"

text \<open>
  The session assembler in the specification's words: a header line is a line on which the
  header pattern is found, and its id is the captured id without its leading zeros; a
  session line is a line that is not a header line and on which the session pattern is
  found; the current device id when a line is read is the id of the last header line
  before it, and it is active when it is set and not empty.  The group of a device id is
  the records of the session lines read while that id is the active current one.
\<close>

definition is_header :: "string \<Rightarrow> bool" where
  "is_header line = (si_start_search line \<noteq> None)"

definition header_id :: "string \<Rightarrow> string" where
  "header_id line = lstrip_chars ''0'' (group (the (si_start_search line)) ''id'')"

definition is_session_line :: "string \<Rightarrow> bool" where
  "is_session_line line = (si_start_search line = None \<and> si_session_search line \<noteq> None)"

definition line_session :: "string \<Rightarrow> session" where
  "line_session line = session_of (the (si_session_search line))"

fun current_ids :: "string option \<Rightarrow> string list \<Rightarrow> string option list" where
  "current_ids cur [] = []"
| "current_ids cur (line # lines) =
     cur # current_ids (if is_header line then Some (header_id line) else cur) lines"

definition group_of :: "string \<Rightarrow> string option \<Rightarrow> string list \<Rightarrow> session list" where
  "group_of k cur lines =
     map (\<lambda>(c, line). line_session line)
       (filter (\<lambda>(c, line). is_session_line line \<and> c = Some k \<and> k \<noteq> [])
          (zip (current_ids cur lines) lines))"

definition header_ids :: "string list \<Rightarrow> string set" where
  "header_ids lines = header_id ` {line \<in> set lines. is_header line}"


definition zero_text :: string where
  "zero_text =
     ''Id:000 Total Sessions:1'' @ [LF]
     @ ''Session 1: length=10,Duration=5 secs,createTime X UTC'' @ [LF]"

definition zero_text_short :: string where
  "zero_text_short = ''Id:000 Total Sessions:1'' @ [LF]"

text \<open>
  What the loop over the lines has made of the groups \<open>sbd\<close> when it has read \<open>lines\<close>
  from the current device id \<open>cur\<close>.
\<close>

definition grown :: "sessions \<Rightarrow> string option \<Rightarrow> string list \<Rightarrow> sessions \<Rightarrow> bool" where
  "grown sbd cur lines sbd' =
     (distinct (map fst sbd')
      \<and> fst ` set sbd' = fst ` set sbd \<union> header_ids lines
      \<and> (\<forall>k. map_of sbd' k =
            (if k \<in> fst ` set sbd then Some (the (map_of sbd k) @ group_of k cur lines)
             else if k \<in> header_ids lines then Some (group_of k cur lines)
             else None)))"

(*DEFS-END*)

section \<open>Properties of the bitfield decoder\<close>

lemma and_one_cases: "(x::int) AND 1 = 0 \<or> x AND 1 = 1"
  by (simp add: and_one_eq) presburger

lemma bit_step_eq:
  "bit_step F i (d, t) =
     (if i \<in> {3, 24, 28, 30} then dict_set (str_nat i) (bit_status_str F i) d else d,
      t @ [\<lparr>Bit = i, Status = bit_status_str F i, Description = bit_label i\<rparr>])"
  using and_one_cases [of "drop_bit i F"]
  by (auto simp: bit_step_def Let_def specific_bits_map_def bit_status_str_def bit_label_def)

lemma fold_bit_step:
  "fold (bit_step F) is (d, t) =
     (fold (\<lambda>i d. dict_set (str_nat i) (bit_status_str F i) d)
        (filter (\<lambda>i. i \<in> {3, 24, 28, 30}) is) d,
      t @ map (\<lambda>i. \<lparr>Bit = i, Status = bit_status_str F i, Description = bit_label i\<rparr>) is)"
  by (induction "is" arbitrary: d t) (simp_all add: bit_step_eq)

lemma filter_named_upt:
  "filter (\<lambda>i. i \<in> {3, 24, 28, 30}) [0..<64] = [3, 24, 28, 30::nat]"
  by code_simp

lemma str_nat_named:
  "str_nat 3 = ''3''" "str_nat 24 = ''24''" "str_nat 28 = ''28''" "str_nat 30 = ''30''"
  by code_simp+

lemma bits_of_int_eq:
  "bits_of_int F =
     ([(''3'', bit_status_str F 3), (''24'', bit_status_str F 24),
       (''28'', bit_status_str F 28), (''30'', bit_status_str F 30)],
      map (\<lambda>i. \<lparr>Bit = i, Status = bit_status_str F i, Description = bit_label i\<rparr>) [0..<64])"
  unfolding bits_of_int_def fold_bit_step filter_named_upt
  by (simp add: str_nat_named)

lemma is_hex_digit_value: "is_hex_digit c \<Longrightarrow> \<exists>d. hex_digit_value c = Some d"
  by (auto simp: is_hex_digit_def hex_digit_value_def)

lemma is_hex_digit_not:
  "is_hex_digit c \<Longrightarrow> c \<noteq> CHR ''x'' \<and> c \<noteq> CHR ''X'' \<and> c \<noteq> CHR ''_'' \<and> c \<noteq> CHR ''+''
     \<and> c \<noteq> CHR ''-'' \<and> \<not> is_int_space c"
  by (auto simp: is_hex_digit_def is_int_space_def)

lemma str_replace_0x_id:
  "CHR ''x'' \<notin> set s \<Longrightarrow> str_replace ''0x'' '''' s = s"
proof (induction s)
  case Nil
  then show ?case by simp
next
  case (Cons c cs)
  then have "take 2 (c # cs) \<noteq> ''0x''"
    by (cases cs) auto
  with Cons show ?case by auto
qed

lemma str_replace_0x_prefix:
  assumes "\<forall>c\<in>set ds. is_hex_digit c"
  shows "str_replace ''0x'' '''' (''0x'' @ ds) = ds"
proof -
  have "CHR ''x'' \<notin> set ds"
    using assms is_hex_digit_not by blast
  then show ?thesis
    by (simp add: str_replace_0x_id)
qed

lemma hex_digits_value:
  "\<forall>c\<in>set ds. is_hex_digit c \<Longrightarrow>
     hex_digits acc us ds =
       (if ds = [] \<and> us then None
        else Some (foldl (\<lambda>a c. 16 * a + (case hex_digit_value c of Some d \<Rightarrow> d | None \<Rightarrow> 0))
                     acc ds))"
proof (induction ds arbitrary: acc us)
  case Nil
  then show ?case by simp
next
  case (Cons c cs)
  then obtain d where "hex_digit_value c = Some d" "c \<noteq> CHR ''_''"
    using is_hex_digit_value is_hex_digit_not by (metis list.set_intros(1))
  with Cons show ?case by simp
qed

lemma dropWhile_hd: "s \<noteq> [] \<Longrightarrow> \<not> P (hd s) \<Longrightarrow> dropWhile P s = s"
  by (cases s) auto

lemma py_int16_hex:
  assumes "ds \<noteq> []" and "\<forall>c\<in>set ds. is_hex_digit c"
  shows "py_int16 ds = Some (int (hex_value ds))"
proof -
  have h: "is_hex_digit (hd ds)" and l: "is_hex_digit (last ds)"
    using assms by auto
  have a: "dropWhile is_int_space ds = ds"
    using assms(1) h is_hex_digit_not by (simp add: dropWhile_hd)
  have b: "dropWhile is_int_space (rev ds) = rev ds"
    using assms(1) l is_hex_digit_not by (simp add: dropWhile_hd hd_rev)
  have c: "take 2 ds \<noteq> ''0x''" "take 2 ds \<noteq> ''0X''"
    using assms(2) is_hex_digit_not
    by (cases ds; cases "tl ds"; auto)+
  have d: "hd ds \<noteq> CHR ''+''" "hd ds \<noteq> CHR ''-''" "hd ds \<noteq> CHR ''_''"
    using h is_hex_digit_not by blast+
  show ?thesis
    using assms(1) c d
    by (simp add: py_int16_def a b Let_def hex_digits_value [OF assms(2)] hex_value_def)
qed

lemma get_bit_status_parsed:
  "py_int16 (str_replace ''0x'' '''' flags_hex) = Some F \<Longrightarrow>
     get_bit_status flags_hex = bits_of_int F"
  by (simp add: get_bit_status_def)

lemma bit_status_str_bit: "bit_status_str F i = (if bit F i then ''ON'' else ''OFF'')"
  by (simp add: bit_status_str_def and_one_eq bit_iff_odd_drop_bit odd_iff_mod_2_eq_one)

lemma word_bit_test: "((drop_bit i w) AND 1 = 1) = bit (w :: 64 word) i"
  by (simp add: and_one_eq bit_iff_odd_drop_bit odd_iff_mod_2_eq_one)

lemma parse_10000008:
  "py_int16 (str_replace ''0x'' '''' ''0x10000008'') = Some 0x10000008"
  by (simp add: py_int16_def is_int_space_def hex_digit_value_def Let_def)

lemma bits_10000008:
  "(drop_bit 3 (0x10000008::int)) AND 1 = 1" "(drop_bit 28 (0x10000008::int)) AND 1 = 1"
  "(drop_bit 30 (0x10000008::int)) AND 1 \<noteq> 1"
  by (simp_all add: and_one_eq drop_bit_eq_div)

text \<open>
  Claim C1.  Whenever the decoder converts its argument to an integer \<open>F\<close>, the heart-rate
  mode derived from the named subset it returns is given by the first-match table over
  bits 3, 28 and 30 of \<open>F\<close> alone: ON, OFF, OFF is "Polar Strap"; ON, ON, OFF is
  "Integrated HR"; ON, OFF, ON is "Bluetooth HR"; each of the five other combinations
  is "Unknown/Custom".
\<close>

theorem hr_mode_decision_table:
  assumes "py_int16 (str_replace ''0x'' '''' flags_hex) = Some F"
  shows "get_current_hr_mode (fst (get_bit_status flags_hex)) =
     (let bit3 = ((drop_bit 3 F) AND 1 = 1);
          bit28 = ((drop_bit 28 F) AND 1 = 1);
          bit30 = ((drop_bit 30 F) AND 1 = 1)
      in if bit3 \<and> \<not> bit28 \<and> \<not> bit30 then ''Polar Strap''
         else if bit3 \<and> bit28 \<and> \<not> bit30 then ''Integrated HR''
         else if bit3 \<and> \<not> bit28 \<and> bit30 then ''Bluetooth HR''
         else ''Unknown/Custom'')"
  by (simp add: get_bit_status_parsed [OF assms] bits_of_int_eq get_current_hr_mode_def
      dict_get_def bit_status_str_def Let_def)

theorem hr_mode_decision_table_witness:
  "py_int16 (str_replace ''0x'' '''' ''0x10000008'') = Some 0x10000008
   \<and> get_current_hr_mode (fst (get_bit_status ''0x10000008'')) = ''Integrated HR''"
  using hr_mode_decision_table [OF parse_10000008] parse_10000008 bits_10000008
  by (simp add: Let_def)

lemma bits_of_int_length: "length (snd (bits_of_int F)) = 64"
  by (simp add: bits_of_int_eq)

lemma bits_of_int_nth:
  "i < 64 \<Longrightarrow> snd (bits_of_int F) ! i =
     \<lparr>Bit = i, Status = bit_status_str F i, Description = bit_label i\<rparr>"
  unfolding bits_of_int_eq snd_conv by (simp del: upt_Suc)

lemma bits_of_int_keys: "map fst (fst (bits_of_int F)) = map str_nat [3, 24, 28, 30]"
  by (simp add: bits_of_int_eq str_nat_named)

lemma bits_of_int_named:
  "\<forall>i\<in>{3, 24, 28, 30}. dict_get (fst (bits_of_int F)) (str_nat i) = Some (bit_status_str F i)"
  by (simp add: bits_of_int_eq str_nat_named dict_get_def)

lemma hex_value_1F: "hex_value ''1F'' = 31"
  by (simp add: hex_value_def hex_digit_value_def)

lemma bits_31: "(drop_bit 3 (31::int)) AND 1 = 1" "(drop_bit 24 (31::int)) AND 1 \<noteq> 1"
  by (simp_all add: and_one_eq drop_bit_eq_div)

text \<open>
  Claim C2.  For a flags string \<open>0x\<close> followed by one or more hexadecimal digits \<open>ds\<close>,
  with \<open>flags\<close> the unsigned integer that \<open>ds\<close> denotes, the decoder returns a table of
  exactly 64 rows; row \<open>i\<close> has index \<open>i\<close>, status ON if \<open>(flags >> i) & 1 = 1\<close> and OFF
  otherwise, and the fixed label of \<open>i\<close> for 3, 24, 28 and 30 and \<open>Bit i\<close> for every
  other index.  The named subset has exactly the keys 3, 24, 28, 30 (as decimal strings),
  with the same ON/OFF states.
\<close>

theorem get_bit_status_table:
  assumes "ds \<noteq> []" and "\<forall>c\<in>set ds. is_hex_digit c"
  shows "length (snd (get_bit_status (''0x'' @ ds))) = 64
     \<and> (\<forall>i<64. snd (get_bit_status (''0x'' @ ds)) ! i =
           \<lparr>Bit = i,
            Status = (if (drop_bit i (int (hex_value ds))) AND 1 = 1 then ''ON'' else ''OFF''),
            Description = bit_label i\<rparr>)
     \<and> map fst (fst (get_bit_status (''0x'' @ ds))) = map str_nat [3, 24, 28, 30]
     \<and> (\<forall>i\<in>{3, 24, 28, 30}. dict_get (fst (get_bit_status (''0x'' @ ds))) (str_nat i)
           = Some (if (drop_bit i (int (hex_value ds))) AND 1 = 1 then ''ON'' else ''OFF''))"
proof -
  have "py_int16 (str_replace ''0x'' '''' (''0x'' @ ds)) = Some (int (hex_value ds))"
    using assms str_replace_0x_prefix [of ds] py_int16_hex [of ds] by simp
  then have e: "get_bit_status (''0x'' @ ds) = bits_of_int (int (hex_value ds))"
    by (rule get_bit_status_parsed)
  show ?thesis
    unfolding e
    using bits_of_int_length bits_of_int_nth bits_of_int_keys
      bits_of_int_named [of "int (hex_value ds)"]
    by (simp add: bit_status_str_def)
qed

theorem get_bit_status_table_witness:
  "''1F'' \<noteq> [] \<and> list_all is_hex_digit ''1F''
   \<and> length (snd (get_bit_status ''0x1F'')) = 64
   \<and> map fst (fst (get_bit_status ''0x1F'')) = [''3'', ''24'', ''28'', ''30'']
   \<and> dict_get (fst (get_bit_status ''0x1F'')) ''3'' = Some ''ON''
   \<and> dict_get (fst (get_bit_status ''0x1F'')) ''24'' = Some ''OFF''"
proof -
  have h: "''1F'' \<noteq> []" "\<forall>c\<in>set ''1F''. is_hex_digit c"
    by (simp_all add: is_hex_digit_def)
  show ?thesis
    using get_bit_status_table [OF h] h bits_31
    by (simp add: hex_value_1F str_nat_named list_all_iff)
qed

lemma parse_40000008:
  "py_int16 (str_replace ''0x'' '''' ''0x40000008'') = Some (uint (0x40000008 :: 64 word))"
  by (simp add: py_int16_def is_int_space_def hex_digit_value_def Let_def)

lemma bit_30_40000008: "(drop_bit 30 (0x40000008 :: 64 word)) AND 1 = 1"
  by (simp add: and_one_eq drop_bit_eq_div)

text \<open>
  Claim C9.  For every 64-bit flags value \<open>w\<close> that the decoder's argument converts to,
  at each of the indices 3, 24, 28 and 30 the named subset holds the status of the same
  row of the 64-row table, and that status is ON exactly when \<open>(w >> i) & 1 = 1\<close>,
  computed on the 64-bit value directly.
\<close>

theorem named_subset_agrees:
  fixes w :: "64 word"
  assumes "py_int16 (str_replace ''0x'' '''' flags_hex) = Some (uint w)"
  shows "\<forall>i\<in>{3, 24, 28, 30}.
     dict_get (fst (get_bit_status flags_hex)) (str_nat i)
       = Some (Status (snd (get_bit_status flags_hex) ! i))
     \<and> Status (snd (get_bit_status flags_hex) ! i)
       = (if (drop_bit i w) AND 1 = 1 then ''ON'' else ''OFF'')"
  unfolding get_bit_status_parsed [OF assms]
  using bits_of_int_named [of "uint w"]
  by (simp add: bits_of_int_nth bit_status_str_bit word_bit_test bit_uint_iff)

theorem named_subset_agrees_witness:
  "py_int16 (str_replace ''0x'' '''' ''0x40000008'') = Some (uint (0x40000008 :: 64 word))
   \<and> dict_get (fst (get_bit_status ''0x40000008'')) ''30''
       = Some (Status (snd (get_bit_status ''0x40000008'') ! 30))
   \<and> Status (snd (get_bit_status ''0x40000008'') ! 30) = ''ON''"
  using named_subset_agrees [OF parse_40000008] parse_40000008 bit_30_40000008
  by (simp add: str_nat_named)

section \<open>Properties of setting the heart-rate mode\<close>

lemma run_command_entry:
  "run_command t hist exe args = ((success, out, err), hist')
   \<Longrightarrow> hist' = hist @ [(exe, args)]
     \<and> (if success then ''SUCCESS: '' @ join '' '' args @ [LF] @ out
         else ''ERROR: '' @ join '' '' args @ [LF] @ err)
       = log_entry (exe, args) (t hist (exe, args))"
proof -
  assume r: "run_command t hist exe args = ((success, out, err), hist')"
  obtain path_exists outcome where a: "t hist (exe, args) = (path_exists, outcome)"
    by (cases "t hist (exe, args)")
  show ?thesis
    using r
    by (cases path_exists; cases outcome)
      (auto simp add: run_command_def a Let_def split: if_splits)
qed

lemma run_commands_eq:
  "run_commands t hist entries cs =
     (entries @ map (\<lambda>i. log_entry (cs ! i) (t (hist @ take i cs) (cs ! i))) [0..<length cs],
      hist @ cs)"
proof (induction cs arbitrary: hist entries)
  case Nil
  then show ?case by simp
next
  case (Cons c cs)
  obtain exe args where c: "c = (exe, args)" by (cases c)
  obtain success out err hist' where r: "run_command t hist exe args = ((success, out, err), hist')"
    by (metis prod.exhaust)
  from run_command_entry [OF r]
  have h: "hist' = hist @ [(exe, args)]"
    and e: "(if success then ''SUCCESS: '' @ join '' '' args @ [LF] @ out
             else ''ERROR: '' @ join '' '' args @ [LF] @ err)
            = log_entry (exe, args) (t hist (exe, args))"
    by simp_all
  have "run_commands t hist entries (c # cs) =
          run_commands t hist' (entries @ [log_entry (exe, args) (t hist (exe, args))]) cs"
    unfolding c using e by (simp add: r split: if_splits)
  then show ?case
    unfolding c h by (simp add: Cons.IH map_upt_Suc del: upt_Suc)
qed

text \<open>
  Claim C7, as stated, fails: the loop over the commands has no exit.  With a tool whose
  every process exits with code 1 and no output, the first command of "Polar Strap"
  fails, and the two commands after it are run all the same, each with an entry of its
  own in the output log.
\<close>

theorem set_hr_mode_abort_counterexample:
  "fst (run_command failing_tool [] ''tool.exe'' [''-ds'', ''3'']) = (False, '''', ''fail'')
   \<and> set_hr_mode failing_tool [] ''tool.exe'' ''Polar Strap''
     = (join [LF] [''--- Setting HR Mode to: Polar Strap ---'',
                   ''ERROR: -ds 3'' @ [LF] @ ''fail'',
                   ''ERROR: -dc 28'' @ [LF] @ ''fail'',
                   ''ERROR: -dc 30'' @ [LF] @ ''fail'',
                   ''--- HR Mode setting complete. ---''],
        [(''tool.exe'', [''-ds'', ''3'']), (''tool.exe'', [''-dc'', ''28'']),
         (''tool.exe'', [''-dc'', ''30''])])"
  by (simp add: set_hr_mode_def hr_commands_def run_command_def failing_tool_def)

text \<open>
  Claim C7, amended.  When setting a heart-rate mode, the commands of the mode are passed
  to \<open>run_command\<close> strictly in the listed order, every one of them whatever the results
  of the others: the sequence is never aborted and nothing is rolled back.  The calls made
  are the ones made before followed by the whole list.  The output log is the header, one
  entry for each command in order, and the closing line.  The entry of a command is an
  ERROR entry with the error text when the executable does not exist, when the process
  exits with a return code other than 0 and has written nothing to its output, when it
  does not end in time, and when starting it raises an exception; it is a SUCCESS entry
  with the output otherwise, also when the process exits with a return code other than 0
  and has written output.
\<close>

theorem set_hr_mode_runs_all:
  assumes "hr_commands exe_path mode = Some commands"
  shows "snd (set_hr_mode t hist exe_path mode) = hist @ commands
     \<and> fst (set_hr_mode t hist exe_path mode) =
         join [LF] ([''--- Setting HR Mode to: '' @ mode @ '' ---'']
           @ map (\<lambda>i. log_entry (commands ! i) (t (hist @ take i commands) (commands ! i)))
               [0..<length commands]
           @ [''--- HR Mode setting complete. ---''])"
  by (simp add: set_hr_mode_def assms run_commands_eq del: upt_Suc)

theorem set_hr_mode_runs_all_witness:
  "hr_commands ''cfg.exe'' ''Bluetooth HR''
     = Some [(''cfg.exe'', [''-ds'', ''3'']), (''cfg.exe'', [''-ds'', ''30'']),
             (''cfg.exe'', [''-dc'', ''28''])]
   \<and> set_hr_mode flaky_tool [] ''cfg.exe'' ''Bluetooth HR''
     = (join [LF] [''--- Setting HR Mode to: Bluetooth HR ---'',
                   ''SUCCESS: -ds 3'' @ [LF] @ ''ok'',
                   ''ERROR: -ds 30'' @ [LF] @ ''boom'',
                   ''SUCCESS: -dc 28'' @ [LF] @ ''partly done'',
                   ''--- HR Mode setting complete. ---''],
        [(''cfg.exe'', [''-ds'', ''3'']), (''cfg.exe'', [''-ds'', ''30'']),
         (''cfg.exe'', [''-dc'', ''28''])])"
proof -
  have h: "hr_commands ''cfg.exe'' ''Bluetooth HR''
     = Some [(''cfg.exe'', [''-ds'', ''3'']), (''cfg.exe'', [''-ds'', ''30'']),
             (''cfg.exe'', [''-dc'', ''28''])]"
    by (simp add: hr_commands_def)
  have "set_hr_mode flaky_tool [] ''cfg.exe'' ''Bluetooth HR''
     = (fst (set_hr_mode flaky_tool [] ''cfg.exe'' ''Bluetooth HR''),
        snd (set_hr_mode flaky_tool [] ''cfg.exe'' ''Bluetooth HR''))"
    by simp
  also have "\<dots> = (join [LF] [''--- Setting HR Mode to: Bluetooth HR ---'',
                   ''SUCCESS: -ds 3'' @ [LF] @ ''ok'',
                   ''ERROR: -ds 30'' @ [LF] @ ''boom'',
                   ''SUCCESS: -dc 28'' @ [LF] @ ''partly done'',
                   ''--- HR Mode setting complete. ---''],
        [(''cfg.exe'', [''-ds'', ''3'']), (''cfg.exe'', [''-ds'', ''30'']),
         (''cfg.exe'', [''-dc'', ''28''])])"
    using set_hr_mode_runs_all [OF h, of flaky_tool "[]"]
    by (simp add: flaky_tool_def upt_rec [of 0] upt_rec [of 1] upt_rec [of 2])
  finally show ?thesis
    using h by simp
qed

section \<open>Properties of the device scan\<close>

lemma contains_iff: "contains sub s \<longleftrightarrow> (\<exists>pre post. s = pre @ sub @ post)"
proof (induction s)
  case Nil
  then show ?case by auto
next
  case (Cons c cs)
  have "take (length sub) (c # cs) = sub \<longleftrightarrow> (\<exists>post. c # cs = sub @ post)"
    by (metis append_eq_conv_conj append_take_drop_id)
  moreover have "(\<exists>pre post. c # cs = pre @ sub @ post)
      \<longleftrightarrow> (\<exists>post. c # cs = sub @ post) \<or> (\<exists>pre post. cs = pre @ sub @ post)"
    by (auto simp: Cons_eq_append_conv)
  ultimately show ?case using Cons.IH by simp
qed

lemma fold_device_step:
  "fold device_step lines (ds, es) =
     (ds @ map (\<lambda>l. device_of (the (summary_search l)))
             (filter (\<lambda>l. summary_search l \<noteq> None) lines),
      es @ map failure_note
             (filter (\<lambda>l. summary_search l = None \<and> contains ''ID:'' l) lines))"
  by (induction lines arbitrary: ds es)
    (auto simp: device_step_def failure_note_def split: option.splits)

text \<open>
  Claim C8, as stated, fails: the marker is looked for by \<open>"ID:" in line\<close>, which
  distinguishes letter case, while the pattern does not.  Of the two lines of the text
  below, neither matches the device-summary pattern and both hold the marker, the second
  in lower case; the first alone is recorded.
\<close>

theorem scan_marker_case_counterexample:
  "splitlines scan_text = [''ID:1 bad'', ''id:2 bad'']
   \<and> summary_search ''id:2 bad'' = None
   \<and> get_connected_devices (True, scan_text, '''') = ([], ''Failed to parse line: ID:1 bad'')"
  by code_simp

lemma scan_marker_example:
  "splitlines scan_text_marker = [''ID:9 oops'', ''hello'']"
  "summary_search ''ID:9 oops'' = None"
  "summary_search ''hello'' = None"
  "contains ''ID:'' ''ID:9 oops''"
  "\<not> contains ''ID:'' ''hello''"
  by code_simp+

text \<open>
  Claim C8, amended.  In the device scan, an output line that does not match the
  device-summary pattern is recorded as a parse failure, \<open>Failed to parse line:\<close> and the
  line, in the error text returned with the devices, if it contains the substring \<open>ID:\<close>
  in exactly this letter case; any other such line, also one that holds the marker in
  another letter case, is ignored and adds nothing to the devices or to the error text.
  The devices are those of the matching lines, in order; the error text is the notes of
  the recorded lines, in order, joined by newlines; when there is neither a device nor a
  note the error text is \<open>No devices found. Check connection.\<close>
\<close>

theorem scan_parse_failures:
  "get_connected_devices (True, stdout, stderr) =
     (let lines = splitlines stdout;
          matched = filter (\<lambda>l. summary_search l \<noteq> None) lines;
          failures = filter (\<lambda>l. summary_search l = None \<and> contains ''ID:'' l) lines
      in if matched = [] \<and> failures = []
         then ([], ''No devices found. Check connection.'')
         else (map (\<lambda>l. device_of (the (summary_search l))) matched,
               join [LF] (map failure_note failures)))"
  by (simp add: get_connected_devices_def fold_device_step Let_def)

theorem scan_parse_failures_witness:
  "get_connected_devices (True, scan_text_marker, '''')
     = ([], ''Failed to parse line: ID:9 oops'')"
  using scan_parse_failures [of scan_text_marker "''''"]
  by (simp add: scan_marker_example failure_note_def)

section \<open>Properties of the radio configuration\<close>

lemma map_filter_eq:
  "List.map_filter f xs = map (\<lambda>x. the (f x)) (filter (\<lambda>x. f x \<noteq> None) xs)"
  by (simp add: List.map_filter_def comp_def)

text \<open>
  Claim C3, as stated, fails: the codes are compared as the texts the pattern captured,
  never as integers.  A matched line with tx code 09 and rx code 09 is classified as
  Unknown, not as Default.
\<close>

theorem radio_config_integer_counterexample:
  "fst (get_6_5ghz_config (True, ''ID:1,txCode=09,rxCode=09'', ''''))
     = [\<lparr>cfg_id = ''1'', config_type = ''Unknown (tx=09, rx=09)'',
         raw = ''ID:1,txCode=09,rxCode=09''\<rparr>]"
  by code_simp

lemma gsp_example:
  "splitlines ''ID:002,a,txCode=9,rxCode=9'' = [''ID:002,a,txCode=9,rxCode=9'']"
  "gsp_search ''ID:002,a,txCode=9,rxCode=9''
     = Some [(''id'', ''002''), (''tx'', ''9''), (''rx'', ''9'')]"
  "strip ''ID:002,a,txCode=9,rxCode=9'' = ''ID:002,a,txCode=9,rxCode=9''"
  by code_simp+

text \<open>
  Claim C3, amended.  For every radio-config line matched by the parser, the derived
  classification is a function of the transmit and receive codes taken as the digit
  strings captured from the line: the texts \<open>9\<close> and \<open>9\<close> classify as Default, \<open>3\<close> and
  \<open>3\<close> as Alternative, and any other pair of texts, also one that denotes the same
  integers with leading zeros such as \<open>09\<close> and \<open>09\<close>, as Unknown carrying the literal
  tx and rx texts.  The result lists one configuration for each matched line, in order.
\<close>

theorem radio_config_by_text:
  "fst (get_6_5ghz_config (True, stdout, stderr)) =
     map (\<lambda>line. let m = the (gsp_search line); tx = group m ''tx''; rx = group m ''rx''
                  in \<lparr>cfg_id = lstrip_chars ''0'' (group m ''id''),
                      config_type =
                        (if tx = ''9'' \<and> rx = ''9'' then ''Default (tx=9, rx=9)''
                         else if tx = ''3'' \<and> rx = ''3'' then ''Alternative (tx=3, rx=3)''
                         else ''Unknown (tx='' @ tx @ '', rx='' @ rx @ '')''),
                      raw = strip line\<rparr>)
       (filter (\<lambda>line. gsp_search line \<noteq> None) (splitlines stdout))"
  by (auto simp add: get_6_5ghz_config_def map_filter_eq config_of_def Let_def)

theorem radio_config_by_text_witness:
  "fst (get_6_5ghz_config (True, ''ID:002,a,txCode=9,rxCode=9'', ''''))
     = [\<lparr>cfg_id = ''2'', config_type = ''Default (tx=9, rx=9)'',
         raw = ''ID:002,a,txCode=9,rxCode=9''\<rparr>]"
  using radio_config_by_text [of "''ID:002,a,txCode=9,rxCode=9''" "''''"]
  by (simp add: gsp_example group_def lstrip_chars_def)

section \<open>Properties of the session list\<close>

lemma dict_set_map_fst:
  "map fst (dict_set k v d) = (if k \<in> fst ` set d then map fst d else map fst d @ [k])"
proof (induction d)
  case Nil
  then show ?case by simp
next
  case (Cons p d)
  obtain a b where p: "p = (a, b)" by (cases p)
  show ?case
  proof (cases "k = a")
    case True
    then show ?thesis by (simp add: p)
  next
    case False
    then show ?thesis using Cons.IH by (simp add: p)
  qed
qed

lemma dict_set_keys: "fst ` set (dict_set k v d) = insert k (fst ` set d)"
proof -
  have "set (map fst (dict_set k v d)) = insert k (set (map fst d))"
    unfolding dict_set_map_fst by auto
  then show ?thesis by simp
qed

lemma dict_set_distinct: "distinct (map fst (dict_set k v d)) = distinct (map fst d)"
  by (simp add: dict_set_map_fst)

lemma dict_set_map_of: "map_of (dict_set k v d) = (map_of d)(k \<mapsto> v)"
  by (induction d) auto

lemma session_step_header:
  assumes "is_header l"
  shows "session_step l (sbd, cur) =
     Inr (if header_id l \<notin> fst ` set sbd then dict_set (header_id l) [] sbd else sbd,
          Some (header_id l))"
proof -
  obtain m where m: "si_start_search l = Some m"
    using assms by (auto simp: is_header_def)
  then have h: "header_id l = lstrip_chars ''0'' (group m ''id'')"
    by (simp add: header_id_def)
  show ?thesis
    unfolding h by (simp add: session_step_def m Let_def)
qed


lemma session_step_session:
  assumes "is_session_line l" and "truthy cur" and "map_of sbd (the cur) = Some vs"
  shows "session_step l (sbd, cur) = Inr (dict_set (the cur) (vs @ [line_session l]) sbd, cur)"
  using assms
  by (auto simp: session_step_def is_session_line_def line_session_def dict_append_def Let_def)

lemma session_step_dropped:
  assumes "\<not> is_header l" and "\<not> truthy cur \<or> \<not> is_session_line l"
  shows "session_step l (sbd, cur) = Inr (sbd, cur)"
  using assms
  by (auto simp: session_step_def is_session_line_def is_header_def Let_def split: option.splits)

lemma group_of_Nil: "group_of k cur [] = []"
  by (simp add: group_of_def)

lemma group_of_header:
  "is_header l \<Longrightarrow> group_of k cur (l # ls) = group_of k (Some (header_id l)) ls"
  by (simp add: group_of_def is_header_def is_session_line_def)

lemma group_of_session:
  "is_session_line l \<Longrightarrow>
     group_of k cur (l # ls) =
       (if cur = Some k \<and> k \<noteq> [] then [line_session l] else []) @ group_of k cur ls"
  by (simp add: group_of_def is_header_def is_session_line_def)

lemma group_of_other:
  "\<not> is_header l \<Longrightarrow> \<not> is_session_line l \<Longrightarrow> group_of k cur (l # ls) = group_of k cur ls"
  by (simp add: group_of_def)

lemma header_ids_Nil: "header_ids [] = {}"
  by (simp add: header_ids_def)

lemma header_ids_Cons:
  "header_ids (l # ls) = (if is_header l then insert (header_id l) (header_ids ls) else header_ids ls)"
  by (auto simp: header_ids_def)

lemma map_of_absent: "k \<notin> fst ` set d \<Longrightarrow> map_of d k = None"
  by (simp add: map_of_eq_None_iff)

lemma map_of_key: "k \<in> fst ` set d \<Longrightarrow> \<exists>v. map_of d k = Some v"
  by (metis domD dom_map_of_conv_image_fst)

lemma session_loop_grown:
  assumes "distinct (map fst sbd)" and "truthy cur \<Longrightarrow> the cur \<in> fst ` set sbd"
  shows "\<exists>sbd' cur'. session_loop lines (sbd, cur) = Inr (sbd', cur') \<and> grown sbd cur lines sbd'"
  using assms
proof (induction lines arbitrary: sbd cur)
  case Nil
  have "grown sbd cur [] sbd"
    using Nil.prems(1)
    by (auto simp: grown_def header_ids_Nil group_of_Nil map_of_eq_None_iff dest: map_of_key)
  then show ?case by simp
next
  case (Cons l ls)
  consider (header) "is_header l"
    | (session) "\<not> is_header l" "is_session_line l" "truthy cur"
    | (dropped) "\<not> is_header l" "\<not> truthy cur \<or> \<not> is_session_line l"
    by blast
  then show ?case
  proof cases
    case header
    define sbd1 where
      "sbd1 = (if header_id l \<notin> fst ` set sbd then dict_set (header_id l) [] sbd else sbd)"
    have step: "session_step l (sbd, cur) = Inr (sbd1, Some (header_id l))"
      by (simp add: session_step_header [OF header] sbd1_def)
    have d1: "distinct (map fst sbd1)"
      using Cons.prems(1) by (simp add: sbd1_def dict_set_distinct)
    have k1: "fst ` set sbd1 = insert (header_id l) (fst ` set sbd)"
      by (auto simp: sbd1_def dict_set_keys)
    have m1: "map_of sbd1 k = (if k \<in> fst ` set sbd then map_of sbd k
                                else if k = header_id l then Some [] else None)" for k
      by (auto simp: sbd1_def dict_set_map_of map_of_absent)
    obtain sbd' cur' where loop: "session_loop ls (sbd1, Some (header_id l)) = Inr (sbd', cur')"
      and g: "grown sbd1 (Some (header_id l)) ls sbd'"
      using Cons.IH [of sbd1 "Some (header_id l)"] d1 k1 by auto
    have "grown sbd cur (l # ls) sbd'"
      using g header
      by (auto simp: grown_def k1 m1 header_ids_Cons group_of_header)
    then show ?thesis
      by (auto simp: step loop)
  next
    case session
    obtain c where c: "cur = Some c" "c \<noteq> []"
      using session(3) by (auto simp: truthy_def split: option.splits)
    have ck: "c \<in> fst ` set sbd"
      using Cons.prems(2) session(3) c by simp
    then obtain vs where vs: "map_of sbd c = Some vs"
      using map_of_key by fastforce
    define sbd1 where "sbd1 = dict_set c (vs @ [line_session l]) sbd"
    have step: "session_step l (sbd, cur) = Inr (sbd1, cur)"
      using session_step_session [OF session(2) session(3), of sbd vs] vs c
      by (simp add: sbd1_def)
    have d1: "distinct (map fst sbd1)"
      using Cons.prems(1) by (simp add: sbd1_def dict_set_distinct)
    have k1: "fst ` set sbd1 = fst ` set sbd"
      using ck by (auto simp: sbd1_def dict_set_keys)
    have m1: "map_of sbd1 k = (if k = c then Some (vs @ [line_session l]) else map_of sbd k)" for k
      by (simp add: sbd1_def dict_set_map_of)
    obtain sbd' cur' where loop: "session_loop ls (sbd1, cur) = Inr (sbd', cur')"
      and g: "grown sbd1 cur ls sbd'"
      using Cons.IH [of sbd1 cur] d1 k1 Cons.prems(2) by auto
    have "grown sbd cur (l # ls) sbd'"
      using g session(1) vs c ck
      by (auto simp: grown_def k1 m1 header_ids_Cons group_of_session [OF session(2)])
    then show ?thesis
      by (auto simp: step loop)
  next
    case dropped
    have step: "session_step l (sbd, cur) = Inr (sbd, cur)"
      by (rule session_step_dropped [OF dropped])
    obtain sbd' cur' where loop: "session_loop ls (sbd, cur) = Inr (sbd', cur')"
      and g: "grown sbd cur ls sbd'"
      using Cons.IH [of sbd cur] Cons.prems by auto
    have e: "group_of k cur (l # ls) = group_of k cur ls" for k
    proof (cases "is_session_line l")
      case True
      then have "\<not> truthy cur" using dropped(2) by simp
      then show ?thesis
        by (auto simp: group_of_session [OF True] truthy_def)
    next
      case False
      then show ?thesis by (simp add: group_of_other dropped(1))
    qed
    have "grown sbd cur (l # ls) sbd'"
      using g dropped(1) by (simp add: grown_def header_ids_Cons e)
    then show ?thesis
      by (auto simp: step loop)
  qed
qed


lemma list_sessions_loop:
  "list_sessions (True, stdout, stderr) =
     (case session_loop (splitlines stdout) ([], None) of
        Inl e \<Rightarrow> Inl e
      | Inr st \<Rightarrow> Inr (fst st, ''''))"
  by (simp add: list_sessions_def split: sum.splits prod.splits)

lemma group_of_empty_key: "group_of [] cur lines = []"
  by (simp add: group_of_def)

lemma list_sessions_groups_aux:
  "\<exists>sbd. list_sessions (True, stdout, stderr) = Inr (sbd, '''')
     \<and> distinct (map fst sbd)
     \<and> fst ` set sbd = header_ids (splitlines stdout)
     \<and> (\<forall>k\<in>header_ids (splitlines stdout).
           map_of sbd k = Some (group_of k None (splitlines stdout)))"
proof -
  obtain sbd cur where loop: "session_loop (splitlines stdout) ([], None) = Inr (sbd, cur)"
    and g: "grown [] None (splitlines stdout) sbd"
    using session_loop_grown [of "[]" None "splitlines stdout"] by (auto simp: truthy_def)
  have "list_sessions (True, stdout, stderr) = Inr (sbd, '''')"
    by (simp add: list_sessions_loop loop)
  then show ?thesis
    using g by (auto simp: grown_def)
qed








section \<open>Device ids made of zeros only\<close>

lemma session_loop_append:
  "session_loop (xs @ ys) st =
     (case session_loop xs st of Inl e \<Rightarrow> Inl e | Inr st' \<Rightarrow> session_loop ys st')"
  by (induction xs arbitrary: st) (auto split: sum.splits)

lemma session_loop_dropped:
  assumes "\<forall>l\<in>set body. \<not> is_header l" and "\<not> truthy cur"
  shows "session_loop body (sbd, cur) = Inr (sbd, cur)"
  using assms
  by (induction body) (simp_all add: session_step_dropped)

lemma lstrip_zeros: "set s \<subseteq> {CHR ''0''} \<Longrightarrow> lstrip_chars ''0'' s = []"
  by (auto simp: lstrip_chars_def dropWhile_eq_Nil_conv)

lemma zero_text_example:
  "splitlines zero_text =
     [''Id:000 Total Sessions:1'', ''Session 1: length=10,Duration=5 secs,createTime X UTC'']"
  "splitlines zero_text_short = [''Id:000 Total Sessions:1'']"
  "is_header ''Id:000 Total Sessions:1''"
  "group (the (si_start_search ''Id:000 Total Sessions:1'')) ''id'' = ''000''"
  "\<not> is_header ''Session 1: length=10,Duration=5 secs,createTime X UTC''"
  "is_session_line ''Session 1: length=10,Duration=5 secs,createTime X UTC''"
  by code_simp+

text \<open>
  Claim C10.  Let a session-listing text have a header line \<open>h\<close> whose device identifier
  consists of \<open>0\<close> characters only, followed by lines \<open>body\<close> none of which is a header
  line (so \<open>body\<close> reaches at most to the next header line), between any lines \<open>pre\<close> and
  \<open>post\<close>.  Then stripping the leading zeros makes the identifier of \<open>h\<close> the empty
  string; the result is the one of the text without the lines of \<open>body\<close>, so every
  session line among them is dropped, not appended; and the result has a group keyed by
  the empty string, which is empty.
\<close>

theorem zero_id_sessions_dropped:
  assumes "splitlines stdout = pre @ h # body @ post"
    and "splitlines stdout' = pre @ h # post"
    and "is_header h"
    and "set (group (the (si_start_search h)) ''id'') \<subseteq> {CHR ''0''}"
    and "\<forall>l\<in>set body. \<not> is_header l"
  shows "header_id h = []
     \<and> list_sessions (True, stdout, stderr) = list_sessions (True, stdout', stderr)
     \<and> (\<exists>sbd. list_sessions (True, stdout, stderr) = Inr (sbd, '''') \<and> map_of sbd [] = Some [])"
proof -
  have id: "header_id h = []"
    using assms(4) by (simp add: header_id_def lstrip_zeros)
  obtain sbd0 cur0 where pre: "session_loop pre ([], None) = Inr (sbd0, cur0)"
    using session_loop_grown [of "[]" None pre] by (auto simp: truthy_def)
  define sbd1 where "sbd1 = (if [] \<notin> fst ` set sbd0 then dict_set [] [] sbd0 else sbd0)"
  have step: "session_step h (sbd0, cur0) = Inr (sbd1, Some [])"
    using session_step_header [OF assms(3), of sbd0 cur0] by (simp add: id sbd1_def)
  have body: "session_loop body (sbd1, Some []) = Inr (sbd1, Some [])"
    by (rule session_loop_dropped [OF assms(5)]) (simp add: truthy_def)
  have long: "session_loop (pre @ h # body @ post) ([], None) = session_loop post (sbd1, Some [])"
    by (simp add: session_loop_append pre step body)
  have short: "session_loop (pre @ h # post) ([], None) = session_loop post (sbd1, Some [])"
    by (simp add: session_loop_append pre step)
  have same: "list_sessions (True, stdout, stderr) = list_sessions (True, stdout', stderr)"
    by (simp add: list_sessions_loop assms(1,2) long short)
  obtain sbd where r: "list_sessions (True, stdout, stderr) = Inr (sbd, '''')"
    and m: "\<forall>k\<in>header_ids (splitlines stdout).
           map_of sbd k = Some (group_of k None (splitlines stdout))"
    using list_sessions_groups_aux [of stdout stderr] by (elim exE conjE) (rule that)
  have "[] \<in> header_ids (splitlines stdout)"
    using assms(3) id by (auto simp: header_ids_def assms(1) image_iff)
  with m have "map_of sbd [] = Some (group_of [] None (splitlines stdout))"
    by (rule bspec)
  then have e: "map_of sbd [] = Some []"
    by (simp add: group_of_empty_key)
  have "\<exists>sbd. list_sessions (True, stdout, stderr) = Inr (sbd, '''') \<and> map_of sbd [] = Some []"
    using r e by (intro exI [of _ sbd] conjI)
  with id same show ?thesis
    by (intro conjI)
qed

theorem zero_id_sessions_dropped_witness:
  "is_session_line ''Session 1: length=10,Duration=5 secs,createTime X UTC''
   \<and> header_id ''Id:000 Total Sessions:1'' = []
   \<and> list_sessions (True, zero_text, '''') = list_sessions (True, zero_text_short, '''')
   \<and> (\<exists>sbd. list_sessions (True, zero_text, '''') = Inr (sbd, '''') \<and> map_of sbd [] = Some [])"
proof -
  have "header_id ''Id:000 Total Sessions:1'' = []
     \<and> list_sessions (True, zero_text, '''') = list_sessions (True, zero_text_short, '''')
     \<and> (\<exists>sbd. list_sessions (True, zero_text, '''') = Inr (sbd, '''') \<and> map_of sbd [] = Some [])"
    by (rule zero_id_sessions_dropped
          [of zero_text "[]" "''Id:000 Total Sessions:1''"
              "[''Session 1: length=10,Duration=5 secs,createTime X UTC'']" "[]"
              zero_text_short])
       (simp_all add: zero_text_example)
  with zero_text_example(6) show ?thesis
    by (intro conjI) (elim conjE, assumption)+
qed

end
